theory Spec2Isabelle
  imports Main "HOL-Library.Char_ord" "HOL-Library.List_Lexorder" "HOL-Library.Multiset"
    "HOL-Library.AList"
begin

section \<open>Shift management component (src/src/ShiftManagement.jsx)\<close>

text \<open>
  The component is one React function component. Its state hooks are modelled as one
  record, each handler as a function from the state (and what the environment answers:
  the event's value, the HTTP response, the confirmation dialog) to the new state and
  the list of effects the handler performs (alerts, console diagnostics, requests).
  A handler runs to completion on the state it was called with.
\<close>

subsection \<open>Numbers\<close>

text \<open>
  The numbers the component handles are results of \<open>parseInt\<close> and the prices of the
  JSON body: integers, or NaN. Every comparison with NaN is false, arithmetic with NaN is
  NaN, and \<open>Math.min\<close>/\<open>Math.max\<close> return NaN when an argument is NaN.
\<close>

datatype jsnum = Num int | NaN

fun js_le :: "jsnum \<Rightarrow> jsnum \<Rightarrow> bool" where
  "js_le (Num a) (Num b) = (a \<le> b)"
| "js_le _ _ = False"

fun js_lt :: "jsnum \<Rightarrow> jsnum \<Rightarrow> bool" where
  "js_lt (Num a) (Num b) = (a < b)"
| "js_lt _ _ = False"

definition js_ge :: "jsnum \<Rightarrow> jsnum \<Rightarrow> bool" where
  "js_ge a b = js_le b a"

definition js_gt :: "jsnum \<Rightarrow> jsnum \<Rightarrow> bool" where
  "js_gt a b = js_lt b a"

fun js_add :: "jsnum \<Rightarrow> jsnum \<Rightarrow> jsnum" where
  "js_add (Num a) (Num b) = Num (a + b)"
| "js_add _ _ = NaN"

fun js_mul :: "jsnum \<Rightarrow> jsnum \<Rightarrow> jsnum" where
  "js_mul (Num a) (Num b) = Num (a * b)"
| "js_mul _ _ = NaN"

fun isNaN :: "jsnum \<Rightarrow> bool" where
  "isNaN NaN = True"
| "isNaN (Num _) = False"

fun Math_min :: "jsnum \<Rightarrow> jsnum \<Rightarrow> jsnum" where
  "Math_min (Num a) (Num b) = Num (min a b)"
| "Math_min _ _ = NaN"

fun Math_max :: "jsnum \<Rightarrow> jsnum \<Rightarrow> jsnum" where
  "Math_max (Num a) (Num b) = Num (max a b)"
| "Math_max _ _ = NaN"

subsection \<open>Data model\<close>

text \<open>
  A shift has the same five fields on the wire (an element of a vacancy's \<open>swifts\<close>)
  and in the form draft (an element of \<open>formData.shifts\<close>). A vacancy of the
  response body may lack its title, its description and its \<open>swifts\<close> array.
\<close>

record shift =
  date :: string
  start_time :: string
  end_time :: string
  type :: string
  price :: jsnum

record vacancy =
  vacancy_id :: nat
  vacancy_title :: "string option"
  vacancy_description :: "string option"
  swifts :: "shift list option"

subsection \<open>Client-side filtering\<close>

text \<open>\<open>!vacancy.swifts || vacancy.swifts.length === 0\<close>\<close>

definition noSwifts :: "vacancy \<Rightarrow> bool" where
  "noSwifts v = (case swifts v of None \<Rightarrow> True | Some ss \<Rightarrow> length ss = 0)"

text \<open>\<open>vacancy.swifts.some(swift => swift.price >= min && swift.price <= max)\<close>\<close>

definition hasMatchingShift :: "jsnum \<Rightarrow> jsnum \<Rightarrow> vacancy \<Rightarrow> bool" where
  "hasMatchingShift actualMin actualMax v =
     (case swifts v of
        None \<Rightarrow> False
      | Some ss \<Rightarrow>
          list_ex (\<lambda>swift. js_ge (price swift) actualMin \<and> js_le (price swift) actualMax) ss)"

definition filteredVacancies :: "vacancy list \<Rightarrow> jsnum \<Rightarrow> jsnum \<Rightarrow> vacancy list" where
  "filteredVacancies raw actualMin actualMax =
     (if js_gt actualMin (Num 0) \<or> js_lt actualMax (Num 1000)
      then filter (\<lambda>vacancy.
             if noSwifts vacancy then False else hasMatchingShift actualMin actualMax vacancy) raw
      else filter (\<lambda>vacancy. \<not> noSwifts vacancy) raw)"

subsection \<open>Strings\<close>

text \<open>
  A number in a template literal is written in decimal (the numbers rendered are an HTTP
  status, a vacancy id and a row index: non-negative integers).
\<close>

definition digit_char :: "nat \<Rightarrow> char" where
  "digit_char d = ''0123456789'' ! d"

fun toString :: "nat \<Rightarrow> string" where
  "toString n = (if n < 10 then [digit_char n] else toString (n div 10) @ [digit_char (n mod 10)])"

declare toString.simps [simp del]

text \<open>
  \<open>str.split(sep)\<close> with a one-character separator: the pieces between the separators,
  at least one piece. \<open>part\<close> reads a piece by index; a missing piece is
  \<open>undefined\<close>, which a template literal and \<open>parseInt\<close> both turn into the text
  "undefined".
\<close>

fun js_split :: "char \<Rightarrow> string \<Rightarrow> string list" where
  "js_split sep [] = [[]]"
| "js_split sep (c # cs) =
     (if c = sep then [] # js_split sep cs
      else (case js_split sep cs of [] \<Rightarrow> [[c]] | p # ps \<Rightarrow> (c # p) # ps))"

definition part :: "string list \<Rightarrow> nat \<Rightarrow> string" where
  "part ps i = (if i < length ps then ps ! i else ''undefined'')"

text \<open>
  \<open>parseInt(string, radix)\<close>: leading white space is skipped, then an optional sign,
  then (when no radix is given, or radix 16) an optional \<open>0x\<close> prefix that selects
  radix 16; the longest prefix of digits of the radix is the value, and no digit at all
  gives NaN. The component calls it with no radix (\<open>None\<close>) and with radix 10.
\<close>

definition is_space :: "char \<Rightarrow> bool" where
  "is_space c = (c \<in> set [CHR '' '', CHR 0x09, CHR 0x0A, CHR 0x0B, CHR 0x0C, CHR 0x0D])"

definition digit_value :: "char \<Rightarrow> nat" where
  "digit_value c =
     (let n = (of_char c :: nat) in
      if 48 \<le> n \<and> n \<le> 57 then n - 48
      else if 97 \<le> n \<and> n \<le> 122 then n - 87
      else if 65 \<le> n \<and> n \<le> 90 then n - 55
      else 36)"

definition hex_prefix :: "string \<Rightarrow> bool" where
  "hex_prefix s = (take 2 s = ''0x'' \<or> take 2 s = ''0X'')"

definition parseInt :: "string \<Rightarrow> nat option \<Rightarrow> jsnum" where
  "parseInt str radix =
     (let s1 = dropWhile is_space str;
          negative = (take 1 s1 = ''-'');
          s2 = (if take 1 s1 = ''-'' \<or> take 1 s1 = ''+'' then drop 1 s1 else s1);
          r = (case radix of None \<Rightarrow> 0 | Some k \<Rightarrow> k)
      in if r \<noteq> 0 \<and> (r < 2 \<or> 36 < r) then NaN
         else
           let strip = ((r = 0 \<or> r = 16) \<and> hex_prefix s2);
               R = (if strip then 16 else if r = 0 then 10 else r);
               s3 = (if strip then drop 2 s2 else s2);
               ds = takeWhile (\<lambda>c. digit_value c < R) s3;
               v = foldl (\<lambda>acc c. acc * R + digit_value c) 0 ds
           in if ds = [] then NaN
              else Num (if negative then - int v else int v))"

text \<open>
  \<open>a.date.localeCompare(b.date)\<close> as the comparator of \<open>Array.prototype.sort\<close>:
  a stable sort, ascending in the date strings. The dates are strings of ASCII digits and
  hyphens, on which the collation order is the order of the character codes, taken
  lexicographically: the order of \<open>string\<close> here.
\<close>

definition sortByDate :: "shift list \<Rightarrow> shift list" where
  "sortByDate xs = sort_key date xs"

subsection \<open>Constants and initial values\<close>

definition API_BASE_URL :: string where
  "API_BASE_URL = ''http://127.0.0.1:8000/api/vacancy''"

definition formatDateForAPI :: "string \<Rightarrow> string" where
  "formatDateForAPI dateStr =
     (if dateStr = [] then []
      else
        let ps = js_split CHR ''-'' dateStr;
            year = part ps 0; month = part ps 1; day = part ps 2
        in day @ ''-'' @ month @ ''-'' @ year)"

definition formatTimeForAPI :: "string \<Rightarrow> string" where
  "formatTimeForAPI timeStr = timeStr"

text \<open>A new row is \<open>{date: dateInput, ...initialShiftDetails}\<close>.\<close>

definition newShiftFor :: "string \<Rightarrow> shift" where
  "newShiftFor d =
     \<lparr>date = d, start_time = ''09:00'', end_time = ''17:00'', type = ''Consultation'',
      price = Num 70\<rparr>"

text \<open>The form draft; the payload of a create or update request has the same three fields.\<close>

record form_data =
  title :: string
  description :: string
  shifts :: "shift list"

definition initialFormData :: form_data where
  "initialFormData = \<lparr>title = [], description = [], shifts = []\<rparr>"

subsection \<open>Component state, effects and the environment's answers\<close>

text \<open>
  The validation error object: keys in insertion order, each with a message or, under
  \<open>shiftDetails\<close>, the nested object of the row errors (keys \<open>price-i\<close>, \<open>time-i\<close>).
\<close>

datatype error_value = Message string | ShiftErrors "(string \<times> string) list"

type_synonym errors = "(string \<times> error_value) list"

record state =
  rawVacancies :: "vacancy list"
  isLoading :: bool
  isDrawerOpen :: bool
  editingVacancy :: "vacancy option"
  minPrice :: jsnum
  maxPrice :: jsnum
  actualMinPrice :: jsnum
  actualMaxPrice :: jsnum
  formData :: form_data
  dateInput :: string
  validationErrors :: errors
  debounceTimer :: "(jsnum \<times> jsnum) option"

text \<open>
  \<open>debounceTimer\<close> is the pending timeout of the debounce effect, with the two bounds
  its callback has captured. \<open>today\<close> is \<open>new Date().toISOString().split("T")[0]\<close>.
  The debounce effect also runs after the first render.
\<close>

definition initialState :: "string \<Rightarrow> state" where
  "initialState today =
     \<lparr>rawVacancies = [], isLoading = True, isDrawerOpen = False, editingVacancy = None,
      minPrice = Num 0, maxPrice = Num 1000, actualMinPrice = Num 0,
      actualMaxPrice = Num 1000, formData = initialFormData, dateInput = today,
      validationErrors = [], debounceTimer = Some (Num 0, Num 1000)\<rparr>"

text \<open>
  What a handler does besides updating the state: \<open>alert\<close>, \<open>console.error\<close> (its
  first argument), \<open>window.confirm\<close>, and \<open>fetch\<close> with method, URL and body.
\<close>

datatype effect =
    Alert string
  | ConsoleError string
  | Confirm string
  | Fetch string string "form_data option"

text \<open>
  An awaited call either throws (with \<open>error.message\<close>) or returns. A response has a
  status; reading its body as text or as JSON can throw as well: \<open>response.json()\<close>
  throws when the body is not JSON. A body that is JSON is \<open>null\<close> or another value.
  On \<open>null\<close>, reading \<open>result.success\<close> throws a TypeError; \<open>JsonNull\<close> carries the
  message the engine gives that error. Of any other value the handler reads
  \<open>result.success\<close> (\<open>success\<close> is its truthiness) and \<open>result.data\<close> (\<open>Some\<close>
  when it is an array); a number, a string, a boolean or an array has neither property,
  which is \<open>success = False\<close> and \<open>data = None\<close>.
\<close>

datatype 'a outcome = Throws string | Returns 'a

record api_result =
  success :: bool
  data :: "vacancy list option"

datatype json_value = JsonNull string | JsonValue api_result

record response =
  status :: nat
  response_text :: "string outcome"
  response_json :: "json_value outcome"

definition ok :: "response \<Rightarrow> bool" where
  "ok r = (200 \<le> status r \<and> status r \<le> 299)"

subsection \<open>Fetching\<close>

text \<open>The \<open>catch\<close> and \<open>finally\<close> blocks of \<open>fetchVacancies\<close>.\<close>

definition fetchFailed :: "string \<Rightarrow> state \<Rightarrow> state \<times> effect list" where
  "fetchFailed message s =
     (s\<lparr>rawVacancies := [], isLoading := False\<rparr>,
      [ConsoleError ''Failed to fetch vacancies:'',
       Alert (''Failed to connect to API: '' @ message @
              ''. Please ensure the backend is running at '' @ API_BASE_URL)])"

definition fetchVacancies :: "response outcome \<Rightarrow> state \<Rightarrow> state \<times> effect list" where
  "fetchVacancies fetched s =
     (let s1 = s\<lparr>isLoading := True\<rparr>;
          request = Fetch ''GET'' API_BASE_URL None;
          (s2, effects) =
            (case fetched of
               Throws message \<Rightarrow> fetchFailed message s1
             | Returns response \<Rightarrow>
                 if \<not> ok response
                 then fetchFailed (''HTTP error! status: '' @ toString (status response)) s1
                 else
                   (case response_json response of
                      Throws message \<Rightarrow> fetchFailed message s1
                    | Returns (JsonNull message) \<Rightarrow> fetchFailed message s1
                    | Returns (JsonValue result) \<Rightarrow>
                        (case (success result, data result) of
                           (True, Some vacancies) \<Rightarrow>
                             (s1\<lparr>rawVacancies := vacancies, isLoading := False\<rparr>, [])
                         | _ \<Rightarrow>
                             (s1\<lparr>rawVacancies := [], isLoading := False\<rparr>,
                              [ConsoleError
                                ''API success: true, but data array is missing or malformed.'']))))
      in (s2, request # effects))"

subsection \<open>The drawer and its form\<close>

definition loadShift :: "shift \<Rightarrow> shift" where
  "loadShift swift =
     \<lparr>date = date swift, start_time = take 5 (start_time swift),
      end_time = take 5 (end_time swift), type = type swift, price = price swift\<rparr>"

definition openDrawer :: "vacancy option \<Rightarrow> state \<Rightarrow> state" where
  "openDrawer vacancy s =
     (let s1 = s\<lparr>validationErrors := []\<rparr> in
      case vacancy of
        Some v \<Rightarrow>
          let loadedShifts = (case swifts v of Some ss \<Rightarrow> map loadShift ss | None \<Rightarrow> [])
          in s1\<lparr>editingVacancy := Some v,
                formData :=
                  \<lparr>title = (case vacancy_title v of Some t \<Rightarrow> t | None \<Rightarrow> []),
                   description = (case vacancy_description v of Some d \<Rightarrow> d | None \<Rightarrow> []),
                   shifts = sortByDate loadedShifts\<rparr>,
                isDrawerOpen := True\<rparr>
      | None \<Rightarrow>
          s1\<lparr>editingVacancy := None, formData := initialFormData, isDrawerOpen := True\<rparr>)"

definition closeDrawer :: "state \<Rightarrow> state" where
  "closeDrawer s = s\<lparr>isDrawerOpen := False, editingVacancy := None, validationErrors := []\<rparr>"

definition addShift :: "state \<Rightarrow> state" where
  "addShift s =
     (if dateInput s \<noteq> [] \<and> \<not> list_ex (\<lambda>sh. date sh = dateInput s) (shifts (formData s))
      then s\<lparr>formData :=
                (formData s)\<lparr>shifts :=
                   sortByDate (shifts (formData s) @ [newShiftFor (dateInput s)])\<rparr>,
              dateInput := []\<rparr>
      else s)"

definition removeShift :: "string \<Rightarrow> state \<Rightarrow> state" where
  "removeShift dateToRemove s =
     s\<lparr>formData :=
         (formData s)\<lparr>shifts := filter (\<lambda>sh. date sh \<noteq> dateToRemove) (shifts (formData s))\<rparr>\<rparr>"

subsection \<open>Validation\<close>

text \<open>\<open>parseInt(t.split(":")[0]) * 60 + parseInt(t.split(":")[1])\<close>\<close>

definition timeInMinutes :: "string \<Rightarrow> jsnum" where
  "timeInMinutes t =
     js_add (js_mul (parseInt (part (js_split CHR '':'' t) 0) None) (Num 60))
            (parseInt (part (js_split CHR '':'' t) 1) None)"

definition priceInvalid :: "shift \<Rightarrow> bool" where
  "priceInvalid sh = (js_le (price sh) (Num 0) \<or> isNaN (price sh))"

definition timeInvalid :: "shift \<Rightarrow> bool" where
  "timeInvalid sh = js_le (timeInMinutes (end_time sh)) (timeInMinutes (start_time sh))"

text \<open>
  The body of \<open>formData.shifts.forEach((shift, index) => ...)\<close>, from row \<open>index\<close> on, with
  the accumulated \<open>shiftErrors\<close> and \<open>hasShiftErrors\<close>.
\<close>

fun validateShifts ::
  "nat \<Rightarrow> shift list \<Rightarrow> (string \<times> string) list \<Rightarrow> bool \<Rightarrow> (string \<times> string) list \<times> bool" where
  "validateShifts index [] shiftErrors hasShiftErrors = (shiftErrors, hasShiftErrors)"
| "validateShifts index (sh # rest) shiftErrors hasShiftErrors =
     (let e1 = (if priceInvalid sh
                then AList.update (''price-'' @ toString index) ''Price must be > 0.'' shiftErrors
                else shiftErrors);
          e2 = (if timeInvalid sh
                then AList.update (''time-'' @ toString index)
                       ''End time must be after start time.'' e1
                else e1);
          isError = (priceInvalid sh \<or> timeInvalid sh)
      in validateShifts (Suc index) rest e2 (hasShiftErrors \<or> isError))"

definition formErrors :: "form_data \<Rightarrow> errors" where
  "formErrors f =
     (let e1 = (if title f = [] then AList.update ''title'' (Message ''Title is required.'') []
                else []);
          e2 = (if description f = []
                then AList.update ''description'' (Message ''Description is required.'') e1
                else e1);
          e3 = (if length (shifts f) = 0
                then AList.update ''shifts''
                       (Message ''At least one date/shift is required.'') e2
                else e2);
          (shiftErrors, hasShiftErrors) = validateShifts 0 (shifts f) [] False
      in if hasShiftErrors then AList.update ''shiftDetails'' (ShiftErrors shiftErrors) e3
         else e3)"

text \<open>
  \<open>validateForm\<close> stores the errors and returns
  \<open>Object.keys(errors).length === 0\<close>.
\<close>

definition validateForm :: "state \<Rightarrow> state \<times> bool" where
  "validateForm s =
     (let errors = formErrors (formData s)
      in (s\<lparr>validationErrors := errors\<rparr>, length (map fst errors) = 0))"

subsection \<open>Saving and deleting\<close>

definition shiftPayload :: "shift \<Rightarrow> shift" where
  "shiftPayload sh =
     \<lparr>date = formatDateForAPI (date sh), start_time = formatTimeForAPI (start_time sh),
      end_time = formatTimeForAPI (end_time sh), type = type sh, price = price sh\<rparr>"

definition vacancyPayload :: "form_data \<Rightarrow> form_data" where
  "vacancyPayload f =
     \<lparr>title = title f, description = description f, shifts = map shiftPayload (shifts f)\<rparr>"

definition saveFailed :: "string \<Rightarrow> effect list" where
  "saveFailed message =
     [ConsoleError ''Error saving vacancy:'',
      Alert (''Error saving vacancy: '' @ message @
             ''. Please check the console for the full API response.'')]"

text \<open>The request of \<open>handleSave\<close>: PUT to the vacancy's URL when editing, POST otherwise.\<close>

definition saveRequest :: "state \<Rightarrow> effect" where
  "saveRequest s =
     (let url = (case editingVacancy s of
                   Some v \<Rightarrow> API_BASE_URL @ ''/'' @ toString (vacancy_id v)
                 | None \<Rightarrow> API_BASE_URL);
          method = (case editingVacancy s of Some v \<Rightarrow> ''PUT'' | None \<Rightarrow> ''POST'')
      in Fetch method url (Some (vacancyPayload (formData s))))"

text \<open>
  \<open>mutation\<close> is the outcome of the POST or PUT, \<open>refetch\<close> that of the GET of
  \<open>fetchVacancies\<close> after it.
\<close>

definition handleSave ::
  "response outcome \<Rightarrow> response outcome \<Rightarrow> state \<Rightarrow> state \<times> effect list" where
  "handleSave mutation refetch s =
     (let (s1, valid) = validateForm s in
      if \<not> valid
      then (s1, [Alert ''Please fix the validation errors before saving.''])
      else
        let request = saveRequest s
        in case mutation of
             Throws message \<Rightarrow> (s1, request # saveFailed message)
           | Returns response \<Rightarrow>
               if \<not> ok response
               then (case response_text response of
                       Throws message \<Rightarrow> (s1, request # saveFailed message)
                     | Returns errorText \<Rightarrow>
                         (s1, request # saveFailed
                            (''Failed to save vacancy: '' @ toString (status response) @
                             '' - '' @ errorText)))
               else
                 let (s2, effects) = fetchVacancies refetch s1
                 in (closeDrawer s2, request # effects))"

definition deleteFailed :: "string \<Rightarrow> effect list" where
  "deleteFailed message =
     [ConsoleError ''Error deleting vacancy:'',
      Alert (''Error deleting vacancy: '' @ message @ ''. Check console for details.'')]"

definition deleteRequest :: "vacancy \<Rightarrow> effect" where
  "deleteRequest v = Fetch ''DELETE'' (API_BASE_URL @ ''/'' @ toString (vacancy_id v)) None"

text \<open>\<open>confirmed\<close> is the answer of \<open>window.confirm\<close>.\<close>

definition handleDelete ::
  "bool \<Rightarrow> response outcome \<Rightarrow> response outcome \<Rightarrow> state \<Rightarrow> state \<times> effect list" where
  "handleDelete confirmed mutation refetch s =
     (case editingVacancy s of
        None \<Rightarrow> (s, [])
      | Some v \<Rightarrow>
          let asked = Confirm ''Are you sure you want to delete this vacancy?'' in
          if \<not> confirmed then (s, [asked])
          else
            let request = deleteRequest v
            in case mutation of
                 Throws message \<Rightarrow> (s, asked # request # deleteFailed message)
               | Returns response \<Rightarrow>
                   if \<not> ok response
                   then (case response_text response of
                           Throws message \<Rightarrow> (s, asked # request # deleteFailed message)
                         | Returns errorText \<Rightarrow>
                             (s, asked # request # deleteFailed
                                (''Failed to delete vacancy: '' @ toString (status response) @
                                 '' - '' @ errorText)))
                   else
                     let (s2, effects) = fetchVacancies refetch s
                     in (closeDrawer s2, asked # request # effects))"

subsection \<open>The price sliders and the debounce effect\<close>

text \<open>
  The effect with dependencies \<open>[minPrice, maxPrice]\<close>: when a bound has changed, the
  pending timeout is cleared and a new one is set, whose callback holds the new bounds.
\<close>

definition debounceEffect :: "state \<Rightarrow> state \<Rightarrow> state" where
  "debounceEffect before s =
     (if minPrice s = minPrice before \<and> maxPrice s = maxPrice before then s
      else s\<lparr>debounceTimer := Some (minPrice s, maxPrice s)\<rparr>)"

definition onMinPriceChange :: "string \<Rightarrow> state \<Rightarrow> state" where
  "onMinPriceChange value s =
     debounceEffect s (s\<lparr>minPrice := Math_min (parseInt value None) (maxPrice s)\<rparr>)"

definition onMaxPriceChange :: "string \<Rightarrow> state \<Rightarrow> state" where
  "onMaxPriceChange value s =
     debounceEffect s (s\<lparr>maxPrice := Math_max (parseInt value None) (minPrice s)\<rparr>)"

text \<open>The timeout's callback, 500ms after it was set.\<close>

definition debounceExpired :: "state \<Rightarrow> state" where
  "debounceExpired s =
     (case debounceTimer s of
        None \<Rightarrow> s
      | Some (mn, mx) \<Rightarrow>
          s\<lparr>actualMinPrice := mn, actualMaxPrice := mx, debounceTimer := None\<rparr>)"

datatype slider_event = MinChange string | MaxChange string | TimerExpired

fun slider_step :: "state \<Rightarrow> slider_event \<Rightarrow> state" where
  "slider_step s (MinChange value) = onMinPriceChange value s"
| "slider_step s (MaxChange value) = onMaxPriceChange value s"
| "slider_step s TimerExpired = debounceExpired s"

definition slider_run :: "state \<Rightarrow> slider_event list \<Rightarrow> state" where
  "slider_run s events = foldl slider_step s events"

subsection \<open>Invariants\<close>

text \<open>The draft's shift list: dates pairwise distinct, and sorted ascending by date.\<close>

definition shiftsInvariant :: "shift list \<Rightarrow> bool" where
  "shiftsInvariant xs = (distinct (map date xs) \<and> sorted (map date xs))"

text \<open>
  A range input's value is a numeric string; \<open>numeric_event\<close> says so of a slider
  event. \<open>boundsOrdered\<close>: the lower bound is at most the upper bound, for the slider
  values, for the debounced values, and for the values a pending timeout holds.
\<close>

definition numeric_event :: "slider_event \<Rightarrow> bool" where
  "numeric_event e =
     (case e of
        MinChange value \<Rightarrow> \<not> isNaN (parseInt value None)
      | MaxChange value \<Rightarrow> \<not> isNaN (parseInt value None)
      | TimerExpired \<Rightarrow> True)"

definition boundsOrdered :: "state \<Rightarrow> bool" where
  "boundsOrdered s =
     (js_le (minPrice s) (maxPrice s) \<and> js_le (actualMinPrice s) (actualMaxPrice s) \<and>
      (case debounceTimer s of None \<Rightarrow> True | Some (mn, mx) \<Rightarrow> js_le mn mx))"

subsection \<open>The reformatting the specification describes\<close>

text \<open>
  The specification has a date in the form DD-MM-YYYY on the wire and rewritten as
  YYYY-MM-DD when a vacancy is opened in the form. This is that rewriting, to compare
  \<open>openDrawer\<close> with.
\<close>

definition spec_dateFromWire :: "string \<Rightarrow> string" where
  "spec_dateFromWire d =
     (let ps = js_split CHR ''-'' d in part ps 2 @ ''-'' @ part ps 1 @ ''-'' @ part ps 0)"

subsection \<open>Example values\<close>

definition priced :: "int \<Rightarrow> shift" where
  "priced p =
     \<lparr>date = ''2025-01-02'', start_time = ''09:00'', end_time = ''17:00'',
      type = ''Consultation'', price = Num p\<rparr>"

definition example_vacancy :: "nat \<Rightarrow> shift list \<Rightarrow> vacancy" where
  "example_vacancy i ss =
     \<lparr>vacancy_id = i, vacancy_title = Some ''T'', vacancy_description = Some ''D'',
      swifts = Some ss\<rparr>"

definition example_raw :: "vacancy list" where
  "example_raw =
     [example_vacancy 1 [priced 50], example_vacancy 2 [], example_vacancy 3 [priced 900]]"

text \<open>A shift as the backend's time columns give it, with seconds.\<close>

definition wire_shift :: "string \<Rightarrow> shift" where
  "wire_shift d =
     \<lparr>date = d, start_time = ''09:00:00'', end_time = ''17:30:00'', type = ''Telephone'',
      price = Num 120\<rparr>"

definition example_state :: state where
  "example_state = initialState ''2025-09-01''"

definition example_listing :: response where
  "example_listing =
     \<lparr>status = 200, response_text = Returns ''{...}'',
      response_json = Returns (JsonValue \<lparr>success = True, data = Some example_raw\<rparr>)\<rparr>"

definition example_html :: response where
  "example_html =
     \<lparr>status = 200, response_text = Returns ''<html>'',
      response_json = Throws ''Unexpected token <''\<rparr>"

definition example_null :: response where
  "example_null =
     \<lparr>status = 200, response_text = Returns ''null'',
      response_json = Returns (JsonNull ''result is null'')\<rparr>"

definition example_error :: response where
  "example_error =
     \<lparr>status = 500, response_text = Returns ''Server Error'',
      response_json = Throws ''Unexpected token S''\<rparr>"

text \<open>The row of the specification's validation example; it names no type.\<close>

definition late_shift :: "string \<Rightarrow> shift" where
  "late_shift ty =
     \<lparr>date = ''2025-01-02'', start_time = ''09:00'', end_time = ''08:00'', type = ty,
      price = Num 10\<rparr>"

definition example_draft :: form_data where
  "example_draft = \<lparr>title = ''A'', description = ''B'', shifts = [priced 10]\<rparr>"

definition drafting_state :: state where
  "drafting_state = example_state\<lparr>isDrawerOpen := True, formData := example_draft\<rparr>"

definition editing_state :: state where
  "editing_state =
     drafting_state\<lparr>editingVacancy := Some (example_vacancy 3 [priced 900])\<rparr>"

definition example_created :: response where
  "example_created =
     \<lparr>status = 201, response_text = Returns ''{}'',
      response_json = Returns (JsonValue \<lparr>success = True, data = None\<rparr>)\<rparr>"

section \<open>Properties\<close>

subsection \<open>The filter\<close>

lemma noSwifts_iff: "noSwifts v \<longleftrightarrow> (swifts v = None \<or> swifts v = Some [])"
  by (simp add: noSwifts_def split: option.splits)

lemma hasMatchingShift_iff:
  "hasMatchingShift mn mx v \<longleftrightarrow>
     (\<exists>ss. swifts v = Some ss \<and> (\<exists>s \<in> set ss. js_le mn (price s) \<and> js_le (price s) mx))"
  by (auto simp: hasMatchingShift_def js_ge_def list_ex_iff split: option.splits)

text \<open>
  C1. For every raw list and every pair of debounced bounds, the displayed list is the raw
  list, in its order, restricted to the vacancies whose \<open>swifts\<close> array is present
  and non-empty and which, when min > 0 or max < 1000, have a shift with
  min <= price <= max; at the bounds (0, 1000) it is the raw list without the vacancies
  whose \<open>swifts\<close> array is missing or empty.
\<close>

theorem filteredVacancies_characterisation:
  "filteredVacancies raw mn mx =
     filter (\<lambda>v. \<exists>ss. swifts v = Some ss \<and> ss \<noteq> [] \<and>
                ((js_gt mn (Num 0) \<or> js_lt mx (Num 1000)) \<longrightarrow>
                   (\<exists>s \<in> set ss. js_le mn (price s) \<and> js_le (price s) mx))) raw
   \<and> filteredVacancies raw (Num 0) (Num 1000) =
     filter (\<lambda>v. swifts v \<noteq> None \<and> swifts v \<noteq> Some []) raw"
proof
  show "filteredVacancies raw mn mx =
     filter (\<lambda>v. \<exists>ss. swifts v = Some ss \<and> ss \<noteq> [] \<and>
                ((js_gt mn (Num 0) \<or> js_lt mx (Num 1000)) \<longrightarrow>
                   (\<exists>s \<in> set ss. js_le mn (price s) \<and> js_le (price s) mx))) raw"
  proof (cases "js_gt mn (Num 0) \<or> js_lt mx (Num 1000)")
    case True
    then show ?thesis
      unfolding filteredVacancies_def
      by (auto intro!: filter_cong simp: noSwifts_iff hasMatchingShift_iff)
  next
    case False
    then show ?thesis
      unfolding filteredVacancies_def
      by (auto intro!: filter_cong simp: noSwifts_iff)
  qed
next
  show "filteredVacancies raw (Num 0) (Num 1000) =
     filter (\<lambda>v. swifts v \<noteq> None \<and> swifts v \<noteq> Some []) raw"
    by (simp add: filteredVacancies_def js_gt_def noSwifts_iff)
qed

theorem filteredVacancies_characterisation_witness:
  "filteredVacancies example_raw (Num 0) (Num 1000) =
     [example_vacancy 1 [priced 50], example_vacancy 3 [priced 900]]
   \<and> filteredVacancies example_raw (Num 0) (Num 100) = [example_vacancy 1 [priced 50]]"
  using filteredVacancies_characterisation [of example_raw "Num 0" "Num 100"]
  by (simp add: example_raw_def example_vacancy_def priced_def js_gt_def)

subsection \<open>Opening the drawer\<close>

lemma sortByDate_sorted: "sorted (map date (sortByDate xs))"
  by (simp add: sortByDate_def)

lemma sortByDate_mset: "mset (sortByDate xs) = mset xs"
  by (simp add: sortByDate_def)

text \<open>
  C2, as the code has it. Opening with a source vacancy gives a draft with one row per
  shift of the vacancy: the date copied as it is (it is not reformatted), the two times
  cut to their first five characters, type and price copied; the rows are sorted
  ascending by the order of the date strings; title and description are the vacancy's, or empty when missing.
  Opening without a vacancy gives the empty draft. Either way the validation errors are
  cleared and the drawer is open.
\<close>

theorem openDrawer_draft:
  "formData (openDrawer None s) = initialFormData
   \<and> validationErrors (openDrawer vacancy s) = []
   \<and> isDrawerOpen (openDrawer vacancy s)
   \<and> editingVacancy (openDrawer vacancy s) = vacancy
   \<and> sorted (map date (shifts (formData (openDrawer vacancy s))))
   \<and> title (formData (openDrawer (Some v) s)) =
       (case vacancy_title v of Some t \<Rightarrow> t | None \<Rightarrow> [])
   \<and> description (formData (openDrawer (Some v) s)) =
       (case vacancy_description v of Some d \<Rightarrow> d | None \<Rightarrow> [])
   \<and> (swifts v = None \<longrightarrow> shifts (formData (openDrawer (Some v) s)) = [])
   \<and> (swifts v = Some ss \<longrightarrow>
        mset (shifts (formData (openDrawer (Some v) s))) =
          image_mset (\<lambda>swift. \<lparr>date = date swift, start_time = take 5 (start_time swift),
                          end_time = take 5 (end_time swift), type = type swift,
                          price = price swift\<rparr>) (mset ss))"
proof -
  have loaded: "loadShift = (\<lambda>swift. \<lparr>date = date swift, start_time = take 5 (start_time swift),
                          end_time = take 5 (end_time swift), type = type swift,
                          price = price swift\<rparr>)"
    by (rule ext) (simp add: loadShift_def)
  have a: "formData (openDrawer None s) = initialFormData"
    by (simp add: openDrawer_def)
  have b: "validationErrors (openDrawer vacancy s) = []"
    by (simp add: openDrawer_def Let_def split: option.splits)
  have c: "isDrawerOpen (openDrawer vacancy s)"
    by (simp add: openDrawer_def Let_def split: option.splits)
  have d: "editingVacancy (openDrawer vacancy s) = vacancy"
    by (simp add: openDrawer_def Let_def split: option.splits)
  have e: "sorted (map date (shifts (formData (openDrawer vacancy s))))"
    by (simp add: openDrawer_def Let_def initialFormData_def sortByDate_sorted
        split: option.splits)
  have t: "title (formData (openDrawer (Some v) s)) =
       (case vacancy_title v of Some t \<Rightarrow> t | None \<Rightarrow> [])"
    by (simp add: openDrawer_def Let_def)
  have u: "description (formData (openDrawer (Some v) s)) =
       (case vacancy_description v of Some d \<Rightarrow> d | None \<Rightarrow> [])"
    by (simp add: openDrawer_def Let_def)
  have f: "swifts v = None \<longrightarrow> shifts (formData (openDrawer (Some v) s)) = []"
    by (simp add: openDrawer_def Let_def sortByDate_def)
  have g: "swifts v = Some ss \<longrightarrow>
        mset (shifts (formData (openDrawer (Some v) s))) = image_mset loadShift (mset ss)"
    by (simp add: openDrawer_def Let_def sortByDate_mset)
  from a b c d e t u f g show ?thesis unfolding loaded by blast
qed

theorem openDrawer_draft_witness:
  "shifts (formData (openDrawer
      (Some (example_vacancy 4 [wire_shift ''2025-01-03'', wire_shift ''2025-01-02'']))
      example_state)) =
     [\<lparr>date = ''2025-01-02'', start_time = ''09:00'', end_time = ''17:30'',
       type = ''Telephone'', price = Num 120\<rparr>,
      \<lparr>date = ''2025-01-03'', start_time = ''09:00'', end_time = ''17:30'',
       type = ''Telephone'', price = Num 120\<rparr>]
   \<and> title (formData (openDrawer
      (Some (example_vacancy 4 [wire_shift ''2025-01-03'', wire_shift ''2025-01-02'']))
      example_state)) = ''T''
   \<and> validationErrors (openDrawer
      (Some (example_vacancy 4 [wire_shift ''2025-01-03'', wire_shift ''2025-01-02'']))
      example_state) = []"
  using openDrawer_draft [of example_state
      "Some (example_vacancy 4 [wire_shift ''2025-01-03'', wire_shift ''2025-01-02''])"
      "example_vacancy 4 [wire_shift ''2025-01-03'', wire_shift ''2025-01-02'']"
      "[wire_shift ''2025-01-03'', wire_shift ''2025-01-02'']"]
  by (simp add: openDrawer_def example_vacancy_def wire_shift_def loadShift_def
      sortByDate_def)

text \<open>
  The claim as the specification words it fails: a shift that arrives with the date
  27-09-2025 is in the draft with the date 27-09-2025, not 2025-09-27.
\<close>

theorem openDrawer_date_not_reformatted:
  "map date (shifts (formData (openDrawer
      (Some (example_vacancy 4 [wire_shift ''27-09-2025''])) example_state))) =
     [''27-09-2025'']
   \<and> spec_dateFromWire (date (wire_shift ''27-09-2025'')) = ''2025-09-27''
   \<and> map date (shifts (formData (openDrawer
      (Some (example_vacancy 4 [wire_shift ''27-09-2025''])) example_state))) \<noteq>
     [spec_dateFromWire (date (wire_shift ''27-09-2025''))]"
  by (simp add: openDrawer_def example_vacancy_def wire_shift_def loadShift_def
      sortByDate_def spec_dateFromWire_def part_def)

subsection \<open>Fetching\<close>

lemma fetchVacancies_throws:
  "fetchVacancies (Throws message) s =
     (s\<lparr>isLoading := False, rawVacancies := []\<rparr>,
      [Fetch ''GET'' API_BASE_URL None, ConsoleError ''Failed to fetch vacancies:'',
       Alert (''Failed to connect to API: '' @ message @
              ''. Please ensure the backend is running at '' @ API_BASE_URL)])"
  by (simp add: fetchVacancies_def fetchFailed_def)

lemma fetchVacancies_not_ok:
  "\<not> ok r \<Longrightarrow> fetchVacancies (Returns r) s =
     (s\<lparr>isLoading := False, rawVacancies := []\<rparr>,
      [Fetch ''GET'' API_BASE_URL None, ConsoleError ''Failed to fetch vacancies:'',
       Alert (''Failed to connect to API: '' @ (''HTTP error! status: '' @ toString (status r)) @
              ''. Please ensure the backend is running at '' @ API_BASE_URL)])"
  by (simp add: fetchVacancies_def fetchFailed_def)

lemma fetchVacancies_unreadable:
  "ok r \<Longrightarrow>
   response_json r = Throws message \<or> response_json r = Returns (JsonNull message) \<Longrightarrow>
   fetchVacancies (Returns r) s =
     (s\<lparr>isLoading := False, rawVacancies := []\<rparr>,
      [Fetch ''GET'' API_BASE_URL None, ConsoleError ''Failed to fetch vacancies:'',
       Alert (''Failed to connect to API: '' @ message @
              ''. Please ensure the backend is running at '' @ API_BASE_URL)])"
  by (auto simp: fetchVacancies_def fetchFailed_def)

lemma fetchVacancies_malformed:
  "ok r \<Longrightarrow> response_json r = Returns (JsonValue result) \<Longrightarrow>
   \<not> success result \<or> data result = None \<Longrightarrow>
   fetchVacancies (Returns r) s =
     (s\<lparr>isLoading := False, rawVacancies := []\<rparr>,
      [Fetch ''GET'' API_BASE_URL None,
       ConsoleError ''API success: true, but data array is missing or malformed.''])"
  by (cases "success result"; cases "data result") (auto simp: fetchVacancies_def)

lemma fetchVacancies_well_formed:
  "ok r \<Longrightarrow> response_json r = Returns (JsonValue result) \<Longrightarrow> success result \<Longrightarrow>
   data result = Some vacancies \<Longrightarrow>
   fetchVacancies (Returns r) s =
     (s\<lparr>isLoading := False, rawVacancies := vacancies\<rparr>, [Fetch ''GET'' API_BASE_URL None])"
  by (simp add: fetchVacancies_def)

text \<open>
  C4, as the code has it. After a fetch the raw list is: empty, with an alert, when the
  request fails, the response is not 2xx, or the 2xx response's body is not JSON or is
  \<open>null\<close> (reading it throws inside the \<open>try\<close>); empty, with a console diagnostic and
  no alert, when the body is a JSON value other than \<open>null\<close> that does not have a truthy
  \<open>success\<close> and an array \<open>data\<close>; the body's \<open>data\<close> array when it has both.
\<close>

theorem fetchVacancies_postcondition:
  "(fetched = Throws message \<or>
    (fetched = Returns r \<and> ok r \<and>
     (response_json r = Throws message \<or> response_json r = Returns (JsonNull message))) \<longrightarrow>
      rawVacancies (fst (fetchVacancies fetched s)) = [] \<and>
      snd (fetchVacancies fetched s) =
        [Fetch ''GET'' API_BASE_URL None, ConsoleError ''Failed to fetch vacancies:'',
         Alert (''Failed to connect to API: '' @ message @
                ''. Please ensure the backend is running at '' @ API_BASE_URL)])
   \<and> (fetched = Returns r \<and> \<not> ok r \<longrightarrow>
      rawVacancies (fst (fetchVacancies fetched s)) = [] \<and>
      snd (fetchVacancies fetched s) =
        [Fetch ''GET'' API_BASE_URL None, ConsoleError ''Failed to fetch vacancies:'',
         Alert (''Failed to connect to API: HTTP error! status: '' @ toString (status r) @
                ''. Please ensure the backend is running at '' @ API_BASE_URL)])
   \<and> (fetched = Returns r \<and> ok r \<and> response_json r = Returns (JsonValue result) \<and>
      (\<not> success result \<or> data result = None) \<longrightarrow>
      rawVacancies (fst (fetchVacancies fetched s)) = [] \<and>
      snd (fetchVacancies fetched s) =
        [Fetch ''GET'' API_BASE_URL None,
         ConsoleError ''API success: true, but data array is missing or malformed.''])
   \<and> (fetched = Returns r \<and> ok r \<and> response_json r = Returns (JsonValue result) \<and>
      success result \<and> data result = Some vacancies \<longrightarrow>
      rawVacancies (fst (fetchVacancies fetched s)) = vacancies \<and>
      snd (fetchVacancies fetched s) = [Fetch ''GET'' API_BASE_URL None])"
proof (intro conjI impI)
  assume "fetched = Throws message \<or>
    (fetched = Returns r \<and> ok r \<and>
     (response_json r = Throws message \<or> response_json r = Returns (JsonNull message)))"
  then have "fetchVacancies fetched s =
     (s\<lparr>isLoading := False, rawVacancies := []\<rparr>,
      [Fetch ''GET'' API_BASE_URL None, ConsoleError ''Failed to fetch vacancies:'',
       Alert (''Failed to connect to API: '' @ message @
              ''. Please ensure the backend is running at '' @ API_BASE_URL)])"
    using fetchVacancies_throws fetchVacancies_unreadable by blast
  then show "rawVacancies (fst (fetchVacancies fetched s)) = []"
    and "snd (fetchVacancies fetched s) =
        [Fetch ''GET'' API_BASE_URL None, ConsoleError ''Failed to fetch vacancies:'',
         Alert (''Failed to connect to API: '' @ message @
                ''. Please ensure the backend is running at '' @ API_BASE_URL)]"
    by simp_all
next
  assume "fetched = Returns r \<and> \<not> ok r"
  then have "fetchVacancies fetched s =
     (s\<lparr>isLoading := False, rawVacancies := []\<rparr>,
      [Fetch ''GET'' API_BASE_URL None, ConsoleError ''Failed to fetch vacancies:'',
       Alert (''Failed to connect to API: '' @ (''HTTP error! status: '' @ toString (status r)) @
              ''. Please ensure the backend is running at '' @ API_BASE_URL)])"
    using fetchVacancies_not_ok by blast
  then show "rawVacancies (fst (fetchVacancies fetched s)) = []"
    and "snd (fetchVacancies fetched s) =
        [Fetch ''GET'' API_BASE_URL None, ConsoleError ''Failed to fetch vacancies:'',
         Alert (''Failed to connect to API: HTTP error! status: '' @ toString (status r) @
                ''. Please ensure the backend is running at '' @ API_BASE_URL)]"
    by simp_all
next
  assume "fetched = Returns r \<and> ok r \<and> response_json r = Returns (JsonValue result) \<and>
      (\<not> success result \<or> data result = None)"
  then have "fetchVacancies fetched s =
     (s\<lparr>isLoading := False, rawVacancies := []\<rparr>,
      [Fetch ''GET'' API_BASE_URL None,
       ConsoleError ''API success: true, but data array is missing or malformed.''])"
    using fetchVacancies_malformed by blast
  then show "rawVacancies (fst (fetchVacancies fetched s)) = []"
    and "snd (fetchVacancies fetched s) =
        [Fetch ''GET'' API_BASE_URL None,
         ConsoleError ''API success: true, but data array is missing or malformed.'']"
    by simp_all
next
  assume "fetched = Returns r \<and> ok r \<and> response_json r = Returns (JsonValue result) \<and>
      success result \<and> data result = Some vacancies"
  then have "fetchVacancies fetched s =
     (s\<lparr>isLoading := False, rawVacancies := vacancies\<rparr>, [Fetch ''GET'' API_BASE_URL None])"
    using fetchVacancies_well_formed by blast
  then show "rawVacancies (fst (fetchVacancies fetched s)) = vacancies"
    and "snd (fetchVacancies fetched s) = [Fetch ''GET'' API_BASE_URL None]"
    by simp_all
qed

theorem fetchVacancies_postcondition_witness:
  "rawVacancies (fst (fetchVacancies (Returns example_listing) example_state)) = example_raw
   \<and> snd (fetchVacancies (Returns example_listing) example_state) =
       [Fetch ''GET'' API_BASE_URL None]
   \<and> rawVacancies (fst (fetchVacancies (Returns example_created)
         (example_state\<lparr>rawVacancies := example_raw\<rparr>))) = []
   \<and> snd (fetchVacancies (Returns example_created)
         (example_state\<lparr>rawVacancies := example_raw\<rparr>)) =
       [Fetch ''GET'' API_BASE_URL None,
        ConsoleError ''API success: true, but data array is missing or malformed.'']
   \<and> rawVacancies (fst (fetchVacancies (Returns example_error)
         (example_state\<lparr>rawVacancies := example_raw\<rparr>))) = []
   \<and> snd (fetchVacancies (Returns example_error)
         (example_state\<lparr>rawVacancies := example_raw\<rparr>)) =
       [Fetch ''GET'' API_BASE_URL None, ConsoleError ''Failed to fetch vacancies:'',
        Alert (''Failed to connect to API: HTTP error! status: 500'' @
               ''. Please ensure the backend is running at '' @ API_BASE_URL)]"
proof -
  have st: "toString (status example_error) = ''500''"
    by (simp add: example_error_def toString.simps digit_char_def)
  have nok: "\<not> ok example_error"
    by (simp add: example_error_def ok_def)
  have okl: "ok example_listing" "ok example_created"
    by (simp_all add: example_listing_def example_created_def ok_def)
  have js: "response_json example_listing =
        Returns (JsonValue \<lparr>success = True, data = Some example_raw\<rparr>)"
      "response_json example_created = Returns (JsonValue \<lparr>success = True, data = None\<rparr>)"
    by (simp_all add: example_listing_def example_created_def)
  note a = fetchVacancies_postcondition [where fetched = "Returns example_listing"
      and message = "''none''" and r = example_listing and s = example_state
      and result = "\<lparr>success = True, data = Some example_raw\<rparr>" and vacancies = example_raw]
  note b = fetchVacancies_postcondition [where fetched = "Returns example_created"
      and message = "''none''" and r = example_created
      and s = "example_state\<lparr>rawVacancies := example_raw\<rparr>"
      and result = "\<lparr>success = True, data = None\<rparr>" and vacancies = "[]"]
  note c = fetchVacancies_postcondition [where fetched = "Returns example_error"
      and message = "''none''" and r = example_error
      and s = "example_state\<lparr>rawVacancies := example_raw\<rparr>"
      and result = "\<lparr>success = True, data = None\<rparr>" and vacancies = "[]"]
  from a b c show ?thesis
    by (simp add: st nok okl js)
qed

text \<open>
  The claim as the specification words it fails: a 200 response whose body is not JSON,
  and one whose body is \<open>null\<close>, are 2xx responses whose body is not of the
  well-formed shape, and each raises an alert.
\<close>

theorem fetchVacancies_unreadable_body_alerts:
  "snd (fetchVacancies (Returns example_html) example_state) =
     [Fetch ''GET'' API_BASE_URL None, ConsoleError ''Failed to fetch vacancies:'',
      Alert (''Failed to connect to API: Unexpected token <'' @
             ''. Please ensure the backend is running at '' @ API_BASE_URL)]
   \<and> rawVacancies (fst (fetchVacancies (Returns example_html) example_state)) = []
   \<and> snd (fetchVacancies (Returns example_null) example_state) =
     [Fetch ''GET'' API_BASE_URL None, ConsoleError ''Failed to fetch vacancies:'',
      Alert (''Failed to connect to API: result is null'' @
             ''. Please ensure the backend is running at '' @ API_BASE_URL)]
   \<and> rawVacancies (fst (fetchVacancies (Returns example_null) example_state)) = []"
  by (simp add: fetchVacancies_def fetchFailed_def example_html_def example_null_def ok_def)

subsection \<open>Validation\<close>

lemmas eval_defs = priceInvalid_def timeInvalid_def timeInMinutes_def part_def parseInt_def
  is_space_def digit_value_def hex_prefix_def toString.simps digit_char_def

lemma validateShifts_flag:
  "snd (validateShifts i xs e h) \<longleftrightarrow> h \<or> (\<exists>sh \<in> set xs. priceInvalid sh \<or> timeInvalid sh)"
  by (induction xs arbitrary: i e h) (auto simp: Let_def)

lemma validateShifts_time_kept:
  "map_of e (''time-'' @ k) = Some ''End time must be after start time.'' \<Longrightarrow>
   map_of (fst (validateShifts i xs e h)) (''time-'' @ k) =
     Some ''End time must be after start time.''"
  by (induction xs arbitrary: i e h) (auto simp: Let_def update_conv')

lemma validateShifts_time_row:
  "j < length xs \<Longrightarrow> timeInvalid (xs ! j) \<Longrightarrow>
   map_of (fst (validateShifts i xs e h)) (''time-'' @ toString (i + j)) =
     Some ''End time must be after start time.''"
proof (induction xs arbitrary: i j e h)
  case Nil
  then show ?case by simp
next
  case (Cons sh rest)
  show ?case
  proof (cases j)
    case 0
    let ?e1 = "if priceInvalid sh
               then AList.update (''price-'' @ toString i) ''Price must be > 0.'' e else e"
    let ?e2 = "AList.update (''time-'' @ toString i) ''End time must be after start time.'' ?e1"
    have "map_of ?e2 (''time-'' @ toString i) = Some ''End time must be after start time.''"
      by (simp only: update_conv' fun_upd_same)
    then have "\<And>hh. map_of (fst (validateShifts (Suc i) rest ?e2 hh)) (''time-'' @ toString i) =
        Some ''End time must be after start time.''"
      by (rule validateShifts_time_kept)
    with 0 Cons.prems show ?thesis
      by (simp add: Let_def)
  next
    case (Suc j')
    with Cons.prems have "j' < length rest" "timeInvalid (rest ! j')" by simp_all
    from Cons.IH [OF this, of "Suc i"] Suc show ?thesis
      by (simp add: Let_def)
  qed
qed

lemma formErrors_empty_iff:
  "formErrors f = [] \<longleftrightarrow>
     title f \<noteq> [] \<and> description f \<noteq> [] \<and> shifts f \<noteq> [] \<and>
     (\<forall>sh \<in> set (shifts f). \<not> priceInvalid sh \<and> \<not> timeInvalid sh)"
proof -
  obtain se hs where v: "validateShifts 0 (shifts f) [] False = (se, hs)"
    by (cases "validateShifts 0 (shifts f) [] False")
  then have hs: "hs \<longleftrightarrow> (\<exists>sh \<in> set (shifts f). priceInvalid sh \<or> timeInvalid sh)"
    using validateShifts_flag [of 0 "shifts f" "[]" False] by simp
  show ?thesis
    unfolding formErrors_def Let_def v using hs by auto
qed

lemma formErrors_title:
  "title f = [] \<Longrightarrow> map_of (formErrors f) ''title'' = Some (Message ''Title is required.'')"
proof -
  assume t: "title f = []"
  obtain se hs where v: "validateShifts 0 (shifts f) [] False = (se, hs)"
    by (cases "validateShifts 0 (shifts f) [] False")
  show ?thesis
    unfolding formErrors_def Let_def v using t by (simp add: update_conv')
qed

lemma formErrors_time:
  assumes "i < length (shifts f)" and "timeInvalid (shifts f ! i)"
  shows "\<exists>se. map_of (formErrors f) ''shiftDetails'' = Some (ShiftErrors se) \<and>
     map_of se (''time-'' @ toString i) = Some ''End time must be after start time.''"
proof -
  obtain se hs where v: "validateShifts 0 (shifts f) [] False = (se, hs)"
    by (cases "validateShifts 0 (shifts f) [] False")
  from assms have "shifts f ! i \<in> set (shifts f)" by simp
  with assms(2) have hs using validateShifts_flag [of 0 "shifts f" "[]" False] v by auto
  moreover have "map_of se (''time-'' @ toString i) = Some ''End time must be after start time.''"
    using validateShifts_time_row [OF assms, of 0 "[]" False] v by simp
  ultimately show ?thesis
    unfolding formErrors_def Let_def v by (simp add: update_conv')
qed

lemma example_draft_valid: "formErrors example_draft = []"
  by (simp add: formErrors_def example_draft_def priced_def eval_defs)

text \<open>
  C8. A draft with an empty title gets the title error and validation returns false,
  whatever the description and the shift rows are.
\<close>

theorem validateForm_empty_title:
  "title (formData s) = [] \<Longrightarrow>
     map_of (validationErrors (fst (validateForm s))) ''title'' =
       Some (Message ''Title is required.'')
     \<and> \<not> snd (validateForm s)"
  using formErrors_title [of "formData s"] formErrors_empty_iff [of "formData s"]
  by (simp add: validateForm_def Let_def)

theorem validateForm_empty_title_witness:
  "validationErrors (fst (validateForm
      (example_state\<lparr>formData := \<lparr>title = [], description = ''B'', shifts = [priced 10]\<rparr>\<rparr>))) =
     [(''title'', Message ''Title is required.'')]
   \<and> \<not> snd (validateForm
      (example_state\<lparr>formData := \<lparr>title = [], description = ''B'', shifts = [priced 10]\<rparr>\<rparr>))"
  using validateForm_empty_title
    [of "example_state\<lparr>formData := \<lparr>title = [], description = ''B'', shifts = [priced 10]\<rparr>\<rparr>"]
  by (simp add: validateForm_def formErrors_def priced_def eval_defs)

text \<open>
  C7. A row \<open>i\<close> whose end time in minutes is less than or equal to its start time in
  minutes gets the error \<open>time-i\<close>, and validation returns false. The draft of the
  specification's example (title A, description B, one row 09:00 to 08:00 with price 10)
  fails with the error \<open>time-0\<close> and nothing else: no price error.
\<close>

theorem validateForm_time_error:
  "(i < length (shifts (formData s)) \<and>
    js_le (timeInMinutes (end_time (shifts (formData s) ! i)))
          (timeInMinutes (start_time (shifts (formData s) ! i))) \<longrightarrow>
      (\<exists>se. map_of (validationErrors (fst (validateForm s))) ''shiftDetails'' =
               Some (ShiftErrors se) \<and>
            map_of se (''time-'' @ toString i) = Some ''End time must be after start time.'')
      \<and> \<not> snd (validateForm s))
   \<and> validateForm (t\<lparr>formData := \<lparr>title = ''A'', description = ''B'', shifts = [late_shift ty]\<rparr>\<rparr>) =
       (t\<lparr>formData := \<lparr>title = ''A'', description = ''B'', shifts = [late_shift ty]\<rparr>,
          validationErrors :=
            [(''shiftDetails'',
              ShiftErrors [(''time-0'', ''End time must be after start time.'')])]\<rparr>,
        False)"
proof (intro conjI impI)
  assume a: "i < length (shifts (formData s)) \<and>
    js_le (timeInMinutes (end_time (shifts (formData s) ! i)))
          (timeInMinutes (start_time (shifts (formData s) ! i)))"
  then have ti: "timeInvalid (shifts (formData s) ! i)" by (simp add: timeInvalid_def)
  from a ti show "\<exists>se. map_of (validationErrors (fst (validateForm s))) ''shiftDetails'' =
               Some (ShiftErrors se) \<and>
            map_of se (''time-'' @ toString i) = Some ''End time must be after start time.''"
    using formErrors_time [of i "formData s"] by (simp add: validateForm_def Let_def)
  from a ti have "shifts (formData s) ! i \<in> set (shifts (formData s))" by simp
  with ti have "formErrors (formData s) \<noteq> []"
    using formErrors_empty_iff [of "formData s"] by blast
  then show "\<not> snd (validateForm s)" by (simp add: validateForm_def Let_def)
next
  show "validateForm (t\<lparr>formData := \<lparr>title = ''A'', description = ''B'', shifts = [late_shift ty]\<rparr>\<rparr>) =
       (t\<lparr>formData := \<lparr>title = ''A'', description = ''B'', shifts = [late_shift ty]\<rparr>,
          validationErrors :=
            [(''shiftDetails'',
              ShiftErrors [(''time-0'', ''End time must be after start time.'')])]\<rparr>,
        False)"
    by (simp add: validateForm_def formErrors_def late_shift_def eval_defs)
qed

theorem validateForm_time_error_witness:
  "validationErrors (fst (validateForm
      (example_state\<lparr>formData :=
         \<lparr>title = ''A'', description = ''B'',
          shifts = [priced 10, late_shift ''Emergency'']\<rparr>\<rparr>))) =
     [(''shiftDetails'', ShiftErrors [(''time-1'', ''End time must be after start time.'')])]
   \<and> \<not> snd (validateForm
      (example_state\<lparr>formData :=
         \<lparr>title = ''A'', description = ''B'',
          shifts = [priced 10, late_shift ''Emergency'']\<rparr>\<rparr>))"
  using validateForm_time_error
    [where i = 1 and t = example_state and ty = "''Emergency''" and s = "example_state\<lparr>formData :=
         \<lparr>title = ''A'', description = ''B'',
          shifts = [priced 10, late_shift ''Emergency'']\<rparr>\<rparr>"]
  by (simp add: validateForm_def formErrors_def priced_def late_shift_def eval_defs)

subsection \<open>Saving and deleting\<close>

lemma validateForm_eq:
  "validateForm s = (s\<lparr>validationErrors := formErrors (formData s)\<rparr>, formErrors (formData s) = [])"
  by (simp add: validateForm_def Let_def)

lemma handleSave_invalid:
  "formErrors (formData s) \<noteq> [] \<Longrightarrow>
   handleSave mutation refetch s =
     (s\<lparr>validationErrors := formErrors (formData s)\<rparr>,
      [Alert ''Please fix the validation errors before saving.''])"
  by (simp add: handleSave_def validateForm_eq)

text \<open>
  C5. Validation produces an error key exactly when the title is empty, the description is
  empty, there is no shift row, or a row has a price that is not positive or is NaN or an
  end time (in minutes) not after its start time. On such a draft \<open>handleSave\<close> only
  replaces the validation errors and shows an alert: it issues no request and leaves the
  draft and the raw list as they are.
\<close>

theorem handleSave_blocked_by_validation:
  "(formErrors (formData s) \<noteq> [] \<longleftrightarrow>
      title (formData s) = [] \<or> description (formData s) = [] \<or> shifts (formData s) = [] \<or>
      (\<exists>sh \<in> set (shifts (formData s)).
          js_le (price sh) (Num 0) \<or> isNaN (price sh) \<or>
          js_le (timeInMinutes (end_time sh)) (timeInMinutes (start_time sh))))
   \<and> (formErrors (formData s) \<noteq> [] \<longrightarrow>
        handleSave mutation refetch s =
          (s\<lparr>validationErrors := formErrors (formData s)\<rparr>,
           [Alert ''Please fix the validation errors before saving.''])
        \<and> formData (fst (handleSave mutation refetch s)) = formData s
        \<and> rawVacancies (fst (handleSave mutation refetch s)) = rawVacancies s
        \<and> (\<forall>method url body. Fetch method url body \<notin> set (snd (handleSave mutation refetch s))))"
proof (intro conjI impI)
  show "formErrors (formData s) \<noteq> [] \<longleftrightarrow>
      title (formData s) = [] \<or> description (formData s) = [] \<or> shifts (formData s) = [] \<or>
      (\<exists>sh \<in> set (shifts (formData s)).
          js_le (price sh) (Num 0) \<or> isNaN (price sh) \<or>
          js_le (timeInMinutes (end_time sh)) (timeInMinutes (start_time sh)))"
    unfolding formErrors_empty_iff priceInvalid_def timeInvalid_def by blast
next
  assume "formErrors (formData s) \<noteq> []"
  then have eq: "handleSave mutation refetch s =
          (s\<lparr>validationErrors := formErrors (formData s)\<rparr>,
           [Alert ''Please fix the validation errors before saving.''])"
    by (rule handleSave_invalid)
  show "handleSave mutation refetch s =
          (s\<lparr>validationErrors := formErrors (formData s)\<rparr>,
           [Alert ''Please fix the validation errors before saving.''])"
    by (rule eq)
  show "formData (fst (handleSave mutation refetch s)) = formData s"
    by (simp add: eq)
  show "rawVacancies (fst (handleSave mutation refetch s)) = rawVacancies s"
    by (simp add: eq)
  show "\<forall>method url body. Fetch method url body \<notin> set (snd (handleSave mutation refetch s))"
    by (simp add: eq)
qed

theorem handleSave_blocked_by_validation_witness:
  "handleSave (Returns example_created) (Returns example_listing) example_state =
     (example_state\<lparr>validationErrors :=
        [(''title'', Message ''Title is required.''),
         (''description'', Message ''Description is required.''),
         (''shifts'', Message ''At least one date/shift is required.'')]\<rparr>,
      [Alert ''Please fix the validation errors before saving.''])"
  using handleSave_blocked_by_validation
    [where s = example_state and mutation = "Returns example_created"
       and refetch = "Returns example_listing"]
  by (simp add: example_state_def initialState_def initialFormData_def formErrors_def)

lemma fetchVacancies_shape:
  "\<exists>vs effects. \<forall>s. fetchVacancies fetched s =
      (s\<lparr>isLoading := False, rawVacancies := vs\<rparr>, Fetch ''GET'' API_BASE_URL None # effects)"
proof (cases fetched)
  case (Throws message)
  then show ?thesis using fetchVacancies_throws by blast
next
  case (Returns r)
  show ?thesis
  proof (cases "ok r")
    case False
    with Returns show ?thesis using fetchVacancies_not_ok by blast
  next
    case True
    show ?thesis
    proof (cases "response_json r")
      case (Throws message)
      with True Returns show ?thesis using fetchVacancies_unreadable by blast
    next
      case parsed: (Returns body)
      show ?thesis
      proof (cases body)
        case (JsonNull message)
        with True parsed Returns show ?thesis using fetchVacancies_unreadable by blast
      next
        case (JsonValue result)
        with parsed have inner: "response_json r = Returns (JsonValue result)" by simp
        show ?thesis
        proof (cases "success result \<and> data result \<noteq> None")
          case True
          then obtain vs where "success result" "data result = Some vs" by auto
          with \<open>ok r\<close> inner Returns show ?thesis using fetchVacancies_well_formed by blast
        next
          case False
          then have "\<not> success result \<or> data result = None" by simp
          with \<open>ok r\<close> inner Returns show ?thesis using fetchVacancies_malformed by blast
        qed
      qed
    qed
  qed
qed

lemma handleSave_failure:
  assumes "formErrors (formData s) = []"
    and "mutation = Throws message \<or>
         (mutation = Returns r \<and> \<not> ok r \<and> response_text r = Throws message)"
  shows "handleSave mutation refetch s =
     (s\<lparr>validationErrors := []\<rparr>,
      [saveRequest s, ConsoleError ''Error saving vacancy:'',
       Alert (''Error saving vacancy: '' @ message @
              ''. Please check the console for the full API response.'')])"
  using assms by (auto simp: handleSave_def validateForm_eq saveFailed_def)

lemma handleSave_rejected:
  assumes "formErrors (formData s) = []"
    and "mutation = Returns r" "\<not> ok r" "response_text r = Returns body"
  shows "handleSave mutation refetch s =
     (s\<lparr>validationErrors := []\<rparr>,
      [saveRequest s, ConsoleError ''Error saving vacancy:'',
       Alert (''Error saving vacancy: Failed to save vacancy: '' @ toString (status r) @
              '' - '' @ body @ ''. Please check the console for the full API response.'')])"
  using assms by (simp add: handleSave_def validateForm_eq saveFailed_def)

lemma handleSave_success:
  assumes "formErrors (formData s) = []" and "mutation = Returns r" "ok r"
  shows "handleSave mutation refetch s =
     (closeDrawer (fst (fetchVacancies refetch (s\<lparr>validationErrors := []\<rparr>))),
      saveRequest s # snd (fetchVacancies refetch (s\<lparr>validationErrors := []\<rparr>)))"
  using assms by (simp add: handleSave_def validateForm_eq split: prod.splits)

lemma handleDelete_failure:
  assumes "editingVacancy d = Some v"
    and "mutation = Throws message \<or>
         (mutation = Returns r \<and> \<not> ok r \<and> response_text r = Throws message)"
  shows "handleDelete True mutation refetch d =
     (d, [Confirm ''Are you sure you want to delete this vacancy?'', deleteRequest v,
          ConsoleError ''Error deleting vacancy:'',
          Alert (''Error deleting vacancy: '' @ message @ ''. Check console for details.'')])"
  using assms by (auto simp: handleDelete_def deleteFailed_def)

lemma handleDelete_rejected:
  assumes "editingVacancy d = Some v"
    and "mutation = Returns r" "\<not> ok r" "response_text r = Returns body"
  shows "handleDelete True mutation refetch d =
     (d, [Confirm ''Are you sure you want to delete this vacancy?'', deleteRequest v,
          ConsoleError ''Error deleting vacancy:'',
          Alert (''Error deleting vacancy: Failed to delete vacancy: '' @ toString (status r) @
                 '' - '' @ body @ ''. Check console for details.'')])"
  using assms by (simp add: handleDelete_def deleteFailed_def)

lemma handleDelete_success:
  assumes "editingVacancy d = Some v" and "mutation = Returns r" "ok r"
  shows "handleDelete True mutation refetch d =
     (closeDrawer (fst (fetchVacancies refetch d)),
      Confirm ''Are you sure you want to delete this vacancy?'' # deleteRequest v #
      snd (fetchVacancies refetch d))"
  using assms by (simp add: handleDelete_def split: prod.splits)

lemma openDrawer_formData_independent:
  "formData (openDrawer x s) = formData (openDrawer x t)"
  by (simp add: openDrawer_def Let_def split: option.splits)

text \<open>
  C3, as the code has it. For a save of a valid draft and a confirmed delete of the vacancy
  being edited: when the request throws, or the response is not 2xx, the handler shows an
  alert with the error message, or with the status and the response body, and changes
  nothing of the raw list, the draft and the drawer (a save has cleared the validation
  errors, a delete changes nothing at all). When the response is 2xx the handler fetches
  the list again and closes the drawer: the drawer is closed, the edited vacancy and the
  validation errors are cleared. The draft itself stays as it was; it is replaced by the
  next \<open>openDrawer\<close>, whose draft does not depend on the state it is called in.
\<close>

theorem mutation_outcomes:
  assumes valid: "formErrors (formData s) = []" and editing: "editingVacancy d = Some v"
  shows
   "(mutation = Throws message \<or>
     (mutation = Returns r \<and> \<not> ok r \<and> response_text r = Throws message) \<longrightarrow>
       handleSave mutation refetch s =
         (s\<lparr>validationErrors := []\<rparr>,
          [saveRequest s, ConsoleError ''Error saving vacancy:'',
           Alert (''Error saving vacancy: '' @ message @
                  ''. Please check the console for the full API response.'')])
       \<and> handleDelete True mutation refetch d =
         (d, [Confirm ''Are you sure you want to delete this vacancy?'', deleteRequest v,
              ConsoleError ''Error deleting vacancy:'',
              Alert (''Error deleting vacancy: '' @ message @
                     ''. Check console for details.'')]))
    \<and> (mutation = Returns r \<and> \<not> ok r \<and> response_text r = Returns body \<longrightarrow>
       handleSave mutation refetch s =
         (s\<lparr>validationErrors := []\<rparr>,
          [saveRequest s, ConsoleError ''Error saving vacancy:'',
           Alert (''Error saving vacancy: Failed to save vacancy: '' @ toString (status r) @
                  '' - '' @ body @ ''. Please check the console for the full API response.'')])
       \<and> handleDelete True mutation refetch d =
         (d, [Confirm ''Are you sure you want to delete this vacancy?'', deleteRequest v,
              ConsoleError ''Error deleting vacancy:'',
              Alert (''Error deleting vacancy: Failed to delete vacancy: '' @
                     toString (status r) @ '' - '' @ body @
                     ''. Check console for details.'')]))
    \<and> (mutation = Returns r \<and> ok r \<longrightarrow>
       (\<exists>effects.
          snd (handleSave mutation refetch s) =
            saveRequest s # Fetch ''GET'' API_BASE_URL None # effects
          \<and> snd (handleDelete True mutation refetch d) =
            Confirm ''Are you sure you want to delete this vacancy?'' # deleteRequest v #
            Fetch ''GET'' API_BASE_URL None # effects)
       \<and> rawVacancies (fst (handleSave mutation refetch s)) =
           rawVacancies (fst (fetchVacancies refetch s))
       \<and> rawVacancies (fst (handleDelete True mutation refetch d)) =
           rawVacancies (fst (fetchVacancies refetch d))
       \<and> \<not> isDrawerOpen (fst (handleSave mutation refetch s))
       \<and> \<not> isDrawerOpen (fst (handleDelete True mutation refetch d))
       \<and> editingVacancy (fst (handleSave mutation refetch s)) = None
       \<and> editingVacancy (fst (handleDelete True mutation refetch d)) = None
       \<and> validationErrors (fst (handleSave mutation refetch s)) = []
       \<and> validationErrors (fst (handleDelete True mutation refetch d)) = []
       \<and> formData (fst (handleSave mutation refetch s)) = formData s
       \<and> formData (fst (handleDelete True mutation refetch d)) = formData d
       \<and> formData (openDrawer again (fst (handleSave mutation refetch s))) =
           formData (openDrawer again other)
       \<and> formData (openDrawer again (fst (handleDelete True mutation refetch d))) =
           formData (openDrawer again other))"
proof (intro conjI impI)
  assume f: "mutation = Throws message \<or>
     (mutation = Returns r \<and> \<not> ok r \<and> response_text r = Throws message)"
  show "handleSave mutation refetch s =
         (s\<lparr>validationErrors := []\<rparr>,
          [saveRequest s, ConsoleError ''Error saving vacancy:'',
           Alert (''Error saving vacancy: '' @ message @
                  ''. Please check the console for the full API response.'')])"
    using valid f by (rule handleSave_failure)
  show "handleDelete True mutation refetch d =
         (d, [Confirm ''Are you sure you want to delete this vacancy?'', deleteRequest v,
              ConsoleError ''Error deleting vacancy:'',
              Alert (''Error deleting vacancy: '' @ message @
                     ''. Check console for details.'')])"
    using editing f by (rule handleDelete_failure)
next
  assume f: "mutation = Returns r \<and> \<not> ok r \<and> response_text r = Returns body"
  show "handleSave mutation refetch s =
         (s\<lparr>validationErrors := []\<rparr>,
          [saveRequest s, ConsoleError ''Error saving vacancy:'',
           Alert (''Error saving vacancy: Failed to save vacancy: '' @ toString (status r) @
                  '' - '' @ body @ ''. Please check the console for the full API response.'')])"
    using valid f by (simp add: handleSave_rejected)
  show "handleDelete True mutation refetch d =
         (d, [Confirm ''Are you sure you want to delete this vacancy?'', deleteRequest v,
              ConsoleError ''Error deleting vacancy:'',
              Alert (''Error deleting vacancy: Failed to delete vacancy: '' @
                     toString (status r) @ '' - '' @ body @
                     ''. Check console for details.'')])"
    using editing f by (simp add: handleDelete_rejected)
next
  assume "mutation = Returns r \<and> ok r"
  then have m: "mutation = Returns r" and okr: "ok r" by simp_all
  note sv = handleSave_success [OF valid m okr, of refetch]
  note dl = handleDelete_success [OF editing m okr, of refetch]
  obtain vs effects where sh: "\<And>t. fetchVacancies refetch t =
      (t\<lparr>isLoading := False, rawVacancies := vs\<rparr>, Fetch ''GET'' API_BASE_URL None # effects)"
    using fetchVacancies_shape [of refetch] by blast
  have "snd (handleSave mutation refetch s) =
            saveRequest s # Fetch ''GET'' API_BASE_URL None # effects
          \<and> snd (handleDelete True mutation refetch d) =
            Confirm ''Are you sure you want to delete this vacancy?'' # deleteRequest v #
            Fetch ''GET'' API_BASE_URL None # effects"
    by (simp add: sv dl sh)
  then show "\<exists>effects.
          snd (handleSave mutation refetch s) =
            saveRequest s # Fetch ''GET'' API_BASE_URL None # effects
          \<and> snd (handleDelete True mutation refetch d) =
            Confirm ''Are you sure you want to delete this vacancy?'' # deleteRequest v #
            Fetch ''GET'' API_BASE_URL None # effects" ..
  show "rawVacancies (fst (handleSave mutation refetch s)) =
           rawVacancies (fst (fetchVacancies refetch s))"
    by (simp add: sv sh closeDrawer_def)
  show "rawVacancies (fst (handleDelete True mutation refetch d)) =
           rawVacancies (fst (fetchVacancies refetch d))"
    by (simp add: dl sh closeDrawer_def)
  show "\<not> isDrawerOpen (fst (handleSave mutation refetch s))"
    by (simp add: sv closeDrawer_def)
  show "\<not> isDrawerOpen (fst (handleDelete True mutation refetch d))"
    by (simp add: dl closeDrawer_def)
  show "editingVacancy (fst (handleSave mutation refetch s)) = None"
    by (simp add: sv closeDrawer_def)
  show "editingVacancy (fst (handleDelete True mutation refetch d)) = None"
    by (simp add: dl closeDrawer_def)
  show "validationErrors (fst (handleSave mutation refetch s)) = []"
    by (simp add: sv closeDrawer_def)
  show "validationErrors (fst (handleDelete True mutation refetch d)) = []"
    by (simp add: dl closeDrawer_def)
  show "formData (fst (handleSave mutation refetch s)) = formData s"
    by (simp add: sv sh closeDrawer_def)
  show "formData (fst (handleDelete True mutation refetch d)) = formData d"
    by (simp add: dl sh closeDrawer_def)
  show "formData (openDrawer again (fst (handleSave mutation refetch s))) =
           formData (openDrawer again other)"
    by (rule openDrawer_formData_independent)
  show "formData (openDrawer again (fst (handleDelete True mutation refetch d))) =
           formData (openDrawer again other)"
    by (rule openDrawer_formData_independent)
qed

theorem mutation_outcomes_witness:
  "handleSave (Returns example_error) (Returns example_listing) drafting_state =
     (drafting_state,
      [Fetch ''POST'' API_BASE_URL (Some (vacancyPayload example_draft)),
       ConsoleError ''Error saving vacancy:'',
       Alert (''Error saving vacancy: Failed to save vacancy: 500 - Server Error'' @
              ''. Please check the console for the full API response.'')])
   \<and> handleDelete True (Returns example_error) (Returns example_listing) editing_state =
     (editing_state,
      [Confirm ''Are you sure you want to delete this vacancy?'',
       Fetch ''DELETE'' (API_BASE_URL @ ''/3'') None,
       ConsoleError ''Error deleting vacancy:'',
       Alert (''Error deleting vacancy: Failed to delete vacancy: 500 - Server Error'' @
              ''. Check console for details.'')])"
proof -
  have v: "formErrors (formData drafting_state) = []"
    by (simp add: drafting_state_def example_draft_valid)
  have e: "editingVacancy editing_state = Some (example_vacancy 3 [priced 900])"
    by (simp add: editing_state_def)
  have same: "drafting_state\<lparr>validationErrors := []\<rparr> = drafting_state"
    by (simp add: drafting_state_def example_state_def initialState_def)
  have req: "saveRequest drafting_state =
      Fetch ''POST'' API_BASE_URL (Some (vacancyPayload example_draft))"
    by (simp add: saveRequest_def drafting_state_def example_state_def initialState_def)
  have del: "deleteRequest (example_vacancy 3 [priced 900]) =
      Fetch ''DELETE'' (API_BASE_URL @ ''/3'') None"
    by (simp add: deleteRequest_def example_vacancy_def toString.simps digit_char_def)
  have st: "toString (status example_error) = ''500''"
    by (simp add: example_error_def toString.simps digit_char_def)
  have nok: "\<not> ok example_error"
    by (simp add: example_error_def ok_def)
  have tx: "response_text example_error = Returns ''Server Error''"
    by (simp add: example_error_def)
  note inst = mutation_outcomes [where s = drafting_state and d = editing_state
      and v = "example_vacancy 3 [priced 900]" and mutation = "Returns example_error"
      and message = "''none''" and r = example_error and refetch = "Returns example_listing"
      and body = "''Server Error''" and again = None and other = example_state, OF v e]
  from inst have "handleSave (Returns example_error) (Returns example_listing) drafting_state =
         (drafting_state\<lparr>validationErrors := []\<rparr>,
          [saveRequest drafting_state, ConsoleError ''Error saving vacancy:'',
           Alert (''Error saving vacancy: Failed to save vacancy: '' @
                  toString (status example_error) @
                  '' - '' @ ''Server Error'' @
                  ''. Please check the console for the full API response.'')])
       \<and> handleDelete True (Returns example_error) (Returns example_listing) editing_state =
         (editing_state,
          [Confirm ''Are you sure you want to delete this vacancy?'',
           deleteRequest (example_vacancy 3 [priced 900]),
           ConsoleError ''Error deleting vacancy:'',
           Alert (''Error deleting vacancy: Failed to delete vacancy: '' @
                     toString (status example_error) @ '' - '' @ ''Server Error'' @
                     ''. Check console for details.'')])"
    using nok tx by blast
  then show ?thesis
    unfolding same req del st by simp
qed

text \<open>
  The claim as the specification words it fails in its last part: after a successful save
  the drawer is closed and the draft is still the one that was saved, not the empty draft.
\<close>

theorem handleSave_keeps_draft:
  "formData (fst (handleSave (Returns example_created) (Returns example_listing)
      drafting_state)) = example_draft
   \<and> example_draft \<noteq> initialFormData
   \<and> \<not> isDrawerOpen (fst (handleSave (Returns example_created) (Returns example_listing)
      drafting_state))"
proof -
  have v: "formErrors (formData drafting_state) = []"
    by (simp add: drafting_state_def example_draft_valid)
  have okc: "ok example_created"
    by (simp add: example_created_def ok_def)
  have "handleSave (Returns example_created) (Returns example_listing) drafting_state =
     (closeDrawer (fst (fetchVacancies (Returns example_listing)
         (drafting_state\<lparr>validationErrors := []\<rparr>))),
      saveRequest drafting_state # snd (fetchVacancies (Returns example_listing)
         (drafting_state\<lparr>validationErrors := []\<rparr>)))"
    using v refl okc by (rule handleSave_success)
  moreover have "fetchVacancies (Returns example_listing)
         (drafting_state\<lparr>validationErrors := []\<rparr>) =
       (drafting_state\<lparr>validationErrors := [], isLoading := False, rawVacancies := example_raw\<rparr>,
        [Fetch ''GET'' API_BASE_URL None])"
    by (rule fetchVacancies_well_formed [where result = "\<lparr>success = True, data = Some example_raw\<rparr>"])
       (simp_all add: example_listing_def ok_def)
  ultimately have "fst (handleSave (Returns example_created) (Returns example_listing)
      drafting_state) =
      closeDrawer (drafting_state\<lparr>validationErrors := [], isLoading := False,
        rawVacancies := example_raw\<rparr>)"
    by simp
  moreover have "formData drafting_state = example_draft"
    by (simp add: drafting_state_def)
  moreover have "example_draft \<noteq> initialFormData"
    by (simp add: example_draft_def initialFormData_def)
  ultimately show ?thesis
    by (simp add: closeDrawer_def)
qed

subsection \<open>The shift rows of the draft\<close>

lemma addShift_noop:
  "dateInput s = [] \<or> dateInput s \<in> date ` set (shifts (formData s)) \<Longrightarrow> addShift s = s"
  by (auto simp: addShift_def list_ex_iff)

lemma addShift_adds:
  assumes "dateInput s \<noteq> []" and "dateInput s \<notin> date ` set (shifts (formData s))"
  shows "addShift s =
     s\<lparr>formData := (formData s)\<lparr>shifts :=
           sortByDate (shifts (formData s) @ [newShiftFor (dateInput s)])\<rparr>,
       dateInput := []\<rparr>"
proof -
  from assms(2) have "\<not> list_ex (\<lambda>sh. date sh = dateInput s) (shifts (formData s))"
    by (auto simp: list_ex_iff image_iff)
  with assms(1) show ?thesis by (simp add: addShift_def)
qed

text \<open>
  C6. \<open>addShift\<close> with an empty date input, or with a date that a row of the draft
  already has, changes nothing. With a new, non-empty date the draft gets exactly one more
  row, with that date and the defaults 09:00, 17:00, Consultation, 70; the rows are sorted
  ascending by the date strings; the date input is emptied.
\<close>

theorem addShift_behaviour:
  "(dateInput s = [] \<or> dateInput s \<in> date ` set (shifts (formData s)) \<longrightarrow>
      addShift s = s)
   \<and> (dateInput s \<noteq> [] \<and> dateInput s \<notin> date ` set (shifts (formData s)) \<longrightarrow>
      mset (shifts (formData (addShift s))) =
        mset (shifts (formData s)) +
        {#\<lparr>date = dateInput s, start_time = ''09:00'', end_time = ''17:00'',
           type = ''Consultation'', price = Num 70\<rparr>#}
      \<and> length (shifts (formData (addShift s))) = Suc (length (shifts (formData s)))
      \<and> sorted (map date (shifts (formData (addShift s))))
      \<and> title (formData (addShift s)) = title (formData s)
      \<and> description (formData (addShift s)) = description (formData s)
      \<and> dateInput (addShift s) = [])"
proof (intro conjI impI)
  assume "dateInput s = [] \<or> dateInput s \<in> date ` set (shifts (formData s))"
  then show "addShift s = s" by (rule addShift_noop)
next
  assume a: "dateInput s \<noteq> [] \<and> dateInput s \<notin> date ` set (shifts (formData s))"
  then have eq: "addShift s =
     s\<lparr>formData := (formData s)\<lparr>shifts :=
           sortByDate (shifts (formData s) @ [newShiftFor (dateInput s)])\<rparr>,
       dateInput := []\<rparr>"
    by (simp add: addShift_adds)
  show "mset (shifts (formData (addShift s))) =
        mset (shifts (formData s)) +
        {#\<lparr>date = dateInput s, start_time = ''09:00'', end_time = ''17:00'',
           type = ''Consultation'', price = Num 70\<rparr>#}"
    by (simp add: eq sortByDate_mset newShiftFor_def)
  show "length (shifts (formData (addShift s))) = Suc (length (shifts (formData s)))"
    by (simp add: eq sortByDate_def)
  show "sorted (map date (shifts (formData (addShift s))))"
    by (simp add: eq sortByDate_sorted)
  show "title (formData (addShift s)) = title (formData s)"
    by (simp add: eq)
  show "description (formData (addShift s)) = description (formData s)"
    by (simp add: eq)
  show "dateInput (addShift s) = []"
    by (simp add: eq)
qed

theorem addShift_behaviour_witness:
  "shifts (formData (addShift (drafting_state\<lparr>dateInput := ''2025-01-01''\<rparr>))) =
     [newShiftFor ''2025-01-01'', priced 10]
   \<and> dateInput (addShift (drafting_state\<lparr>dateInput := ''2025-01-01''\<rparr>)) = []
   \<and> addShift (drafting_state\<lparr>dateInput := ''2025-01-02''\<rparr>) =
       drafting_state\<lparr>dateInput := ''2025-01-02''\<rparr>"
  using addShift_behaviour [of "drafting_state\<lparr>dateInput := ''2025-01-01''\<rparr>"]
    addShift_behaviour [of "drafting_state\<lparr>dateInput := ''2025-01-02''\<rparr>"]
  by (simp add: addShift_def drafting_state_def example_draft_def priced_def newShiftFor_def
      sortByDate_def)

lemma sortByDate_distinct: "distinct (map date (sortByDate xs)) = distinct (map date xs)"
proof -
  have "mset (map date (sortByDate xs)) = mset (map date xs)"
    by (simp add: sortByDate_mset)
  then show ?thesis by (rule mset_eq_imp_distinct_iff)
qed

lemma shiftsInvariant_sortByDate:
  "shiftsInvariant (sortByDate xs) \<longleftrightarrow> distinct (map date xs)"
  by (simp add: shiftsInvariant_def sortByDate_sorted sortByDate_distinct)

lemma shiftsInvariant_filter:
  "shiftsInvariant xs \<Longrightarrow> shiftsInvariant (filter P xs)"
  by (simp add: shiftsInvariant_def distinct_map_filter sorted_filter)

lemma loadShift_date: "date \<circ> loadShift = date"
  by (rule ext) (simp add: loadShift_def)

text \<open>
  C9, as the code has it. The invariant (dates pairwise distinct, rows sorted ascending by
  date) holds for the initial draft and after opening without a vacancy, and \<open>addShift\<close>
  and \<open>removeShift\<close> preserve it. After opening with a source vacancy the rows are
  sorted, and the dates are pairwise distinct exactly when the dates of the vacancy's
  shifts are: \<open>openDrawer\<close> copies every shift and removes none.
\<close>

theorem shiftsInvariant_preserved:
  "shiftsInvariant (shifts (formData (initialState today)))
   \<and> shiftsInvariant (shifts (formData (openDrawer None s)))
   \<and> sorted (map date (shifts (formData (openDrawer (Some v) s))))
   \<and> (shiftsInvariant (shifts (formData (openDrawer (Some v) s))) \<longleftrightarrow>
        (case swifts v of None \<Rightarrow> True | Some ss \<Rightarrow> distinct (map date ss)))
   \<and> (shiftsInvariant (shifts (formData s)) \<longrightarrow>
        shiftsInvariant (shifts (formData (addShift s))))
   \<and> (shiftsInvariant (shifts (formData s)) \<longrightarrow>
        shiftsInvariant (shifts (formData (removeShift dateToRemove s))))"
proof (intro conjI impI)
  show "shiftsInvariant (shifts (formData (initialState today)))"
    by (simp add: shiftsInvariant_def initialState_def initialFormData_def)
  show "shiftsInvariant (shifts (formData (openDrawer None s)))"
    by (simp add: shiftsInvariant_def openDrawer_def initialFormData_def)
  show "sorted (map date (shifts (formData (openDrawer (Some v) s))))"
    by (simp add: openDrawer_def Let_def sortByDate_sorted)
  show "shiftsInvariant (shifts (formData (openDrawer (Some v) s))) \<longleftrightarrow>
        (case swifts v of None \<Rightarrow> True | Some ss \<Rightarrow> distinct (map date ss))"
    by (simp add: openDrawer_def Let_def shiftsInvariant_sortByDate loadShift_date
        split: option.splits)
next
  assume inv: "shiftsInvariant (shifts (formData s))"
  show "shiftsInvariant (shifts (formData (addShift s)))"
  proof (cases "dateInput s = [] \<or> dateInput s \<in> date ` set (shifts (formData s))")
    case True
    then have "addShift s = s" by (rule addShift_noop)
    with inv show ?thesis by simp
  next
    case False
    then have "addShift s =
       s\<lparr>formData := (formData s)\<lparr>shifts :=
             sortByDate (shifts (formData s) @ [newShiftFor (dateInput s)])\<rparr>,
         dateInput := []\<rparr>"
      by (simp add: addShift_adds)
    moreover have "distinct (map date (shifts (formData s) @ [newShiftFor (dateInput s)]))"
      using inv False by (simp add: shiftsInvariant_def newShiftFor_def)
    ultimately show ?thesis
      by (simp add: shiftsInvariant_sortByDate)
  qed
next
  assume inv: "shiftsInvariant (shifts (formData s))"
  then show "shiftsInvariant (shifts (formData (removeShift dateToRemove s)))"
    by (simp add: removeShift_def shiftsInvariant_filter)
qed

theorem shiftsInvariant_preserved_witness:
  "shiftsInvariant (shifts (formData (addShift (drafting_state\<lparr>dateInput := ''2025-01-01''\<rparr>))))
   \<and> shiftsInvariant (shifts (formData
        (removeShift ''2025-01-02'' (drafting_state\<lparr>dateInput := ''2025-01-01''\<rparr>))))
   \<and> shiftsInvariant (shifts (formData (openDrawer
        (Some (example_vacancy 4 [wire_shift ''2025-01-03'', wire_shift ''2025-01-02'']))
        (drafting_state\<lparr>dateInput := ''2025-01-01''\<rparr>))))"
proof -
  have inv: "shiftsInvariant (shifts (formData (drafting_state\<lparr>dateInput := ''2025-01-01''\<rparr>)))"
    by (simp add: shiftsInvariant_def drafting_state_def example_draft_def)
  have d: "(case swifts (example_vacancy 4 [wire_shift ''2025-01-03'', wire_shift ''2025-01-02''])
            of None \<Rightarrow> True | Some ss \<Rightarrow> distinct (map date ss))"
    by (simp add: example_vacancy_def wire_shift_def)
  from shiftsInvariant_preserved [where s = "drafting_state\<lparr>dateInput := ''2025-01-01''\<rparr>"
      and today = "''2025-09-01''" and dateToRemove = "''2025-01-02''"
      and v = "example_vacancy 4 [wire_shift ''2025-01-03'', wire_shift ''2025-01-02'']"]
    inv d
  show ?thesis by blast
qed

text \<open>
  The claim as the specification words it fails for opening: a vacancy with two shifts on
  the same date gives a draft with that date twice.
\<close>

theorem openDrawer_duplicate_dates:
  "\<not> shiftsInvariant (shifts (formData (openDrawer
      (Some (example_vacancy 5 [wire_shift ''2025-01-02'', wire_shift ''2025-01-02'']))
      example_state)))"
  by (simp add: shiftsInvariant_def openDrawer_def example_vacancy_def wire_shift_def
      loadShift_def sortByDate_def)

subsection \<open>The price sliders\<close>

lemma js_le_Math_min: "js_le a b \<Longrightarrow> \<not> isNaN x \<Longrightarrow> js_le (Math_min x b) b"
  by (cases a; cases b; cases x) simp_all

lemma js_le_Math_max: "js_le a b \<Longrightarrow> \<not> isNaN x \<Longrightarrow> js_le a (Math_max x a)"
  by (cases a; cases b; cases x) simp_all

lemma onMinPriceChange_ordered:
  assumes "boundsOrdered s" and "\<not> isNaN (parseInt value None)"
  shows "boundsOrdered (onMinPriceChange value s)"
proof -
  from assms have "js_le (Math_min (parseInt value None) (maxPrice s)) (maxPrice s)"
    by (auto simp: boundsOrdered_def intro: js_le_Math_min)
  with assms(1) show ?thesis
    by (simp add: boundsOrdered_def onMinPriceChange_def debounceEffect_def)
qed

lemma onMaxPriceChange_ordered:
  assumes "boundsOrdered s" and "\<not> isNaN (parseInt value None)"
  shows "boundsOrdered (onMaxPriceChange value s)"
proof -
  from assms have "js_le (minPrice s) (Math_max (parseInt value None) (minPrice s))"
    by (auto simp: boundsOrdered_def intro: js_le_Math_max)
  with assms(1) show ?thesis
    by (simp add: boundsOrdered_def onMaxPriceChange_def debounceEffect_def)
qed

lemma debounceExpired_ordered:
  "boundsOrdered s \<Longrightarrow> boundsOrdered (debounceExpired s)"
  by (auto simp: boundsOrdered_def debounceExpired_def split: option.splits)

lemma slider_step_ordered:
  "boundsOrdered s \<Longrightarrow> numeric_event e \<Longrightarrow> boundsOrdered (slider_step s e)"
  by (cases e)
     (simp_all add: numeric_event_def onMinPriceChange_ordered onMaxPriceChange_ordered
        debounceExpired_ordered)

lemma slider_run_ordered:
  "boundsOrdered s \<Longrightarrow> \<forall>e \<in> set events. numeric_event e \<Longrightarrow>
   boundsOrdered (slider_run s events)"
  unfolding slider_run_def
  by (induction events arbitrary: s) (simp_all add: slider_step_ordered)

lemma initialState_ordered: "boundsOrdered (initialState today)"
  by (simp add: boundsOrdered_def initialState_def)

text \<open>
  C10. The handler of the lower slider stores the minimum of the new value and the current
  upper bound, the handler of the upper slider the maximum of the new value and the
  current lower bound. From the initial bounds (0, 1000), after any sequence of slider
  changes with numeric values and timer expiries, the lower bound is at most the upper
  bound, and so are the debounced bounds that the filter reads.
\<close>

theorem slider_bounds_ordered:
  "minPrice (onMinPriceChange input s) = Math_min (parseInt input None) (maxPrice s)
   \<and> maxPrice (onMinPriceChange input s) = maxPrice s
   \<and> maxPrice (onMaxPriceChange input s) = Math_max (parseInt input None) (minPrice s)
   \<and> minPrice (onMaxPriceChange input s) = minPrice s
   \<and> ((\<forall>e \<in> set events. numeric_event e) \<longrightarrow>
        js_le (minPrice (slider_run (initialState today) events))
              (maxPrice (slider_run (initialState today) events))
        \<and> js_le (actualMinPrice (slider_run (initialState today) events))
                (actualMaxPrice (slider_run (initialState today) events)))"
proof (intro conjI impI)
  show "minPrice (onMinPriceChange input s) = Math_min (parseInt input None) (maxPrice s)"
    and "maxPrice (onMinPriceChange input s) = maxPrice s"
    by (simp_all add: onMinPriceChange_def debounceEffect_def)
  show "maxPrice (onMaxPriceChange input s) = Math_max (parseInt input None) (minPrice s)"
    and "minPrice (onMaxPriceChange input s) = minPrice s"
    by (simp_all add: onMaxPriceChange_def debounceEffect_def)
next
  assume "\<forall>e \<in> set events. numeric_event e"
  with initialState_ordered have b: "boundsOrdered (slider_run (initialState today) events)"
    by (rule slider_run_ordered)
  from b show "js_le (minPrice (slider_run (initialState today) events))
              (maxPrice (slider_run (initialState today) events))"
    by (simp add: boundsOrdered_def)
  from b show "js_le (actualMinPrice (slider_run (initialState today) events))
                (actualMaxPrice (slider_run (initialState today) events))"
    by (simp add: boundsOrdered_def)
qed

lemma parse_250: "parseInt ''250'' None = Num 250"
  by (simp add: parseInt_def is_space_def digit_value_def hex_prefix_def)

lemma parse_100: "parseInt ''100'' None = Num 100"
  by (simp add: parseInt_def is_space_def digit_value_def hex_prefix_def)

theorem slider_bounds_ordered_witness:
  "minPrice (slider_run example_state [MinChange ''250'', MaxChange ''100'', TimerExpired]) =
     Num 250
   \<and> maxPrice (slider_run example_state [MinChange ''250'', MaxChange ''100'', TimerExpired]) =
     Num 250
   \<and> actualMinPrice
       (slider_run example_state [MinChange ''250'', MaxChange ''100'', TimerExpired]) = Num 250
   \<and> actualMaxPrice
       (slider_run example_state [MinChange ''250'', MaxChange ''100'', TimerExpired]) = Num 250"
  using slider_bounds_ordered [where events = "[MinChange ''250'', MaxChange ''100'', TimerExpired]"
      and today = "''2025-09-01''" and s = example_state and input = "''250''"]
  by (simp add: slider_run_def onMinPriceChange_def onMaxPriceChange_def debounceEffect_def
      debounceExpired_def example_state_def initialState_def parse_250 parse_100)

end
